theory Spec2Isabelle
  imports Main
begin

section \<open>Data model of debuggerClientModule.js\<close>

text \<open>
  A JavaScript slot that holds an object reference or nothing. The module tests such
  slots for truthiness only; an object is truthy, \<open>undefined\<close> and \<open>null\<close> are not.
\<close>

datatype 'a jsref = Undefined | Null | Obj 'a

fun truthy :: "'a jsref \<Rightarrow> bool" where
  "truthy (Obj _) = True"
| "truthy Undefined = False"
| "truthy Null = False"

text \<open>The two exceptions the module's own code can raise.\<close>

datatype js_error = ReferenceError string | TypeError string

text \<open>
  A protocol object (a packet, a tab entry of the tab listing) is a list of its own
  properties, with string values; \<open>map_of obj k\<close> reads the own property \<open>k\<close>,
  \<open>None\<close> when the object has none. The names that the module reads by a fixed name
  (\<open>type\<close>, \<open>actor\<close>) are no members of \<open>Object.prototype\<close>, so for them the own
  property is the whole read and \<open>None\<close> is \<open>undefined\<close>; the read by a name that
  the caller gives is \<open>get_property\<close> below. On two values that are each a string or
  \<open>undefined\<close>, the operator \<open>==\<close> of the source is equality of \<open>string option\<close>.
\<close>

type_synonym js_object = "(string \<times> string) list"

text \<open>The handles: \<open>tc_actor\<close> is the field \<open>_actor\<close> of a tab client.\<close>

record tab_client =
  tc_ref :: nat
  tc_actor :: "string option"

record thread_client =
  th_ref :: nat

record debugger_client =
  cl_ref :: nat
  connected :: bool

record list_tabs_response =
  tabs :: "js_object list"
  selected :: nat

record response =
  threadActor :: "string option"
  error :: "string option"

record tab_context =
  uid :: nat
  tabClient :: "tab_client jsref"
  activeThread :: "thread_client jsref"
  listTabsResponse :: "list_tabs_response jsref"

record persisted_state =
  p_tabClient :: "tab_client jsref"
  p_activeThread :: "thread_client jsref"

text \<open>
  The transport of the module: \<open>hooks_traced\<close> holds once \<open>transport.hooks\<close> is the
  tracing object of \<open>hookPacketTransport\<close> (before, the hooks are the client itself),
  \<open>send_traced\<close> once \<open>transport.send\<close> is the logging wrapper.
\<close>

record transport =
  tr_ref :: nat
  hooks_traced :: bool
  send_traced :: bool

record module_state =
  client :: "debugger_client option"
  isRemoteDebugger :: bool
  transport :: "transport option"

text \<open>What the module reads from its surroundings in \<open>connect\<close>.\<close>

record environment =
  DBG_CONNECTION :: bool
  remoteHost :: string
  remotePort :: string
  new_transport_ref :: nat
  new_client_ref :: nat

subsection \<open>Observable effects\<close>

datatype arg = AClient "nat option" | AContext nat | ABool bool | AValue string

text \<open>
  Every call that leaves the module is one effect, in program order.
  \<open>TraceConnSysout prefix packet\<close> is the call
  \<open>TraceConn.sysout(prefix + JSON.stringify(packet), packet)\<close>; the calls of the
  debugger client that take a callback carry the \<open>uid\<close> of the context their callback
  has captured.
\<close>

datatype effect =
    FBTraceSysout string "arg list"
  | TraceConnSysout string js_object
  | TraceErrorSysout string
  | ModuleDispatch string "arg list"
  | ServerInit
  | ServerAddBrowserActors
  | ServerConnectPipe
  | SocketConnect string string
  | NewDebuggerClient nat
  | ClientAddListener string
  | ClientRemoveListener string
  | ClientConnect
  | ClientClose
  | ClientListTabs nat
  | ClientAttachTab nat "string option"
  | ClientAttachThread nat "string option"
  | ThreadResume nat
  | ClientOnPacket js_object
  | ClientOnClosed string
  | TransportSend js_object

section \<open>The module\<close>

subsection \<open>Event source\<close>

text \<open>
  Modelled from the spec: \<open>Firebug.Module.dispatch\<close>, the listener fan-out of the base
  module, is not among the sources. By the spec it invokes the handler of every registered
  listener that implements the event, in registration order, and never throws on a
  listener's behalf; the model records the call and returns.
\<close>

definition dispatch :: "string \<Rightarrow> arg list \<Rightarrow> effect list" where
  "dispatch eventName args =
     [FBTraceSysout (''debuggerClientModule.dispatch; '' @ eventName) args,
      ModuleDispatch eventName args]"

subsection \<open>Debugging: the packet transport hook\<close>

text \<open>
  \<open>hookPacketTransport\<close> as \<open>connect\<close> calls it, on the transport of the module: it
  replaces the hooks of the transport by an object with the two functions \<open>onPacket\<close>
  and \<open>onClosed\<close> below, and \<open>transport.send\<close> by the wrapper \<open>send\<close>.
\<close>

definition hookPacketTransport :: "module_state \<Rightarrow> module_state" where
  "hookPacketTransport self =
     self\<lparr>transport :=
       map_option (\<lambda>t. t\<lparr>hooks_traced := True, send_traced := True\<rparr>) (transport self)\<rparr>"

definition onPacket :: "module_state \<Rightarrow> js_object \<Rightarrow> js_error option \<times> effect list" where
  "onPacket self packet =
     (if map_of packet ''type'' = Some ''newGlobal'' then (None, [])
      else (case client self of
              None \<Rightarrow> (Some (TypeError ''self.client is null''),
                        [TraceConnSysout ''PACKET RECEIVED; '' packet])
            | Some c \<Rightarrow> (None, [TraceConnSysout ''PACKET RECEIVED; '' packet,
                                 ClientOnPacket packet])))"

text \<open>
  In \<open>self.client.onClosed(packet)\<close> the callee is evaluated before the argument: with
  no client, reading \<open>onClosed\<close> from \<open>null\<close> raises a type error; with a client,
  the argument reads \<open>packet\<close>, which no enclosing scope of the function declares, and
  that raises before the call is made.
\<close>

definition onClosed :: "module_state \<Rightarrow> string \<Rightarrow> js_error option \<times> effect list" where
  "onClosed self status =
     (case client self of
        None \<Rightarrow> (Some (TypeError ''self.client is null''), [])
      | Some c \<Rightarrow> (Some (ReferenceError ''packet is not defined''), []))"

definition send :: "module_state \<Rightarrow> js_object \<Rightarrow> effect list" where
  "send self packet = [TraceConnSysout ''PACKET SEND '' packet, TransportSend packet]"

text \<open>
  The transport calling its hooks: the tracing hooks when they are installed, otherwise
  the debugger client, which is the hooks object of a transport from its construction.
\<close>

definition transport_onPacket ::
  "module_state \<Rightarrow> js_object \<Rightarrow> js_error option \<times> effect list" where
  "transport_onPacket self packet =
     (case transport self of
        None \<Rightarrow> (None, [])
      | Some t \<Rightarrow> if hooks_traced t then onPacket self packet
                  else (None, [ClientOnPacket packet]))"

definition transport_onClosed ::
  "module_state \<Rightarrow> string \<Rightarrow> js_error option \<times> effect list" where
  "transport_onClosed self status =
     (case transport self of
        None \<Rightarrow> (None, [])
      | Some t \<Rightarrow> if hooks_traced t then onClosed self status
                  else (None, [ClientOnClosed status]))"

definition transport_send :: "module_state \<Rightarrow> js_object \<Rightarrow> effect list" where
  "transport_send self packet =
     (case transport self of
        None \<Rightarrow> []
      | Some t \<Rightarrow> if send_traced t then send self packet else [TransportSend packet])"

subsection \<open>Connection\<close>

definition connect :: "environment \<Rightarrow> module_state \<Rightarrow> module_state \<times> effect list" where
  "connect env self =
     (let self1 = self\<lparr>transport := Some \<lparr>tr_ref = new_transport_ref env,
                                          hooks_traced = False, send_traced = False\<rparr>,
                       client := Some \<lparr>cl_ref = new_client_ref env, connected = False\<rparr>\<rparr>;
          self2 = (if DBG_CONNECTION env then hookPacketTransport self1 else self1)
      in (self2,
          (if \<not> isRemoteDebugger self then [ServerInit, ServerAddBrowserActors] else []) @
          [if isRemoteDebugger self then SocketConnect (remoteHost env) (remotePort env)
           else ServerConnectPipe,
           NewDebuggerClient (new_client_ref env),
           ClientAddListener ''tabNavigated'',
           ClientAddListener ''tabDetached'',
           ClientConnect]))"

definition disconnect :: "module_state \<Rightarrow> js_error option \<times> effect list" where
  "disconnect self =
     (case client self of
        None \<Rightarrow> (Some (TypeError ''this.client is null''), [])
      | Some c \<Rightarrow> (None, [ClientRemoveListener ''tabNavigated'',
                           ClientRemoveListener ''tabDetached'',
                           ClientClose]))"

subsection \<open>Tab and thread attachment\<close>

text \<open>
  A method that registers a callback with the debugger client returns once the call is
  issued; the body of the callback is a function of its own (\<open>_callback\<close>), which the
  client runs later with its reply. Each function returns the exception it ends with
  (\<open>None\<close> when it returns normally), the context where it writes to it, and its effects.
\<close>

definition attachThread ::
  "module_state \<Rightarrow> tab_context \<Rightarrow> string option \<Rightarrow> js_error option \<times> effect list" where
  "attachThread self cx threadActor_arg =
     (case client self of
        None \<Rightarrow> (Some (TypeError ''this.client is null''), [])
      | Some c \<Rightarrow> (None, [ClientAttachThread (uid cx) threadActor_arg]))"

definition attachThread_callback ::
  "module_state \<Rightarrow> tab_context \<Rightarrow> response \<Rightarrow> thread_client jsref \<Rightarrow>
   js_error option \<times> tab_context \<times> effect list" where
  "attachThread_callback self cx resp threadClient =
     (case threadClient of
        Obj th \<Rightarrow>
          (None, cx\<lparr>activeThread := threadClient\<rparr>,
           dispatch ''onThreadAttached'' [AContext (uid cx), ABool False] @
           [ThreadResume (th_ref th)])
      | _ \<Rightarrow>
          (None, cx,
           [TraceErrorSysout (''Couldn't attach to thread: '' @
              (case error resp of None \<Rightarrow> ''undefined'' | Some e \<Rightarrow> e))]))"

text \<open>
  In the branch for a context that has a tab client, the argument of the call of
  \<open>attachThread\<close> reads \<open>response\<close>, which no enclosing scope of \<open>attachTab\<close>
  declares: evaluating the argument raises before the call is made.
\<close>

definition attachTab ::
  "module_state \<Rightarrow> tab_context \<Rightarrow> string option \<Rightarrow> js_error option \<times> effect list" where
  "attachTab self cx tabActor =
     (if truthy (tabClient cx) then (Some (ReferenceError ''response is not defined''), [])
      else (case client self of
              None \<Rightarrow> (Some (TypeError ''this.client is null''), [])
            | Some c \<Rightarrow> (None, [ClientAttachTab (uid cx) tabActor])))"

definition attachTab_callback ::
  "module_state \<Rightarrow> tab_context \<Rightarrow> response \<Rightarrow> tab_client jsref \<Rightarrow>
   js_error option \<times> tab_context \<times> effect list" where
  "attachTab_callback self cx resp tabClient_arg =
     (if \<not> truthy tabClient_arg
      then (None, cx, [TraceErrorSysout ''ERROR: No tab client found!''])
      else (let cx1 = cx\<lparr>tabClient := tabClient_arg\<rparr>;
                (e, tr) = attachThread self cx1 (threadActor resp)
            in (e, cx1, dispatch ''onTabAttached'' [AContext (uid cx), ABool False] @ tr)))"

definition attachCurrentTab ::
  "module_state \<Rightarrow> tab_context \<Rightarrow> js_error option \<times> effect list" where
  "attachCurrentTab self cx =
     (if truthy (tabClient cx) \<and> truthy (activeThread cx)
      then (None,
            dispatch ''onThreadDetached'' [AContext (uid cx), ABool True] @
            dispatch ''onTabDetached'' [AContext (uid cx), ABool True] @
            dispatch ''onTabAttached'' [AContext (uid cx), ABool True] @
            dispatch ''onThreadAttached'' [AContext (uid cx), ABool True])
      else (case client self of
              None \<Rightarrow> (Some (TypeError ''this.client is null''), [])
            | Some c \<Rightarrow> (None, [ClientListTabs (uid cx)])))"

text \<open>
  The callback of \<open>listTabs\<close>: \<open>response.tabs[response.selected]\<close> is \<open>undefined\<close> out
  of range, and reading \<open>actor\<close> from it raises.
\<close>

definition listTabs_callback ::
  "module_state \<Rightarrow> tab_context \<Rightarrow> list_tabs_response \<Rightarrow>
   js_error option \<times> tab_context \<times> effect list" where
  "listTabs_callback self cx resp =
     (let cx1 = cx\<lparr>listTabsResponse := Obj resp\<rparr>
      in if selected resp < length (tabs resp)
         then (let tabGrip = tabs resp ! selected resp;
                   (e, tr) = attachTab self cx1 (map_of tabGrip ''actor'')
               in (e, cx1, tr))
         else (Some (TypeError ''tabGrip is undefined''), cx1, []))"

subsection \<open>Context\<close>

text \<open>\<open>persistedState\<close> is an object or absent (\<open>None\<close>: \<open>undefined\<close> or \<open>null\<close>).\<close>

definition initContext ::
  "module_state \<Rightarrow> tab_context \<Rightarrow> persisted_state option \<Rightarrow>
   js_error option \<times> tab_context \<times> effect list" where
  "initContext self cx persistedState =
     (let cx1 = (case persistedState of
                   None \<Rightarrow> cx
                 | Some ps \<Rightarrow> cx\<lparr>tabClient := p_tabClient ps,
                                  activeThread := p_activeThread ps\<rparr>)
      in case client self of
           None \<Rightarrow> (None, cx1, [])
         | Some c \<Rightarrow>
             if connected c
             then (let (e, tr) = attachCurrentTab self cx1 in (e, cx1, tr))
             else (None, cx1, []))"

definition destroyContext ::
  "tab_context \<Rightarrow> persisted_state option \<Rightarrow> js_error + persisted_state" where
  "destroyContext cx persistedState =
     (case persistedState of
        None \<Rightarrow> Inl (TypeError ''persistedState is undefined'')
      | Some ps \<Rightarrow> Inr (ps\<lparr>p_tabClient := tabClient cx,
                            p_activeThread := activeThread cx\<rparr>))"

subsection \<open>Actors\<close>

text \<open>
  The read \<open>tab[actorName]\<close> takes its property name from the caller, and a read goes
  through the prototype chain: a name that the tab entry does not have itself is looked up
  in \<open>Object.prototype\<close>. The names that \<open>Object.prototype\<close> defines when the call
  is made (\<open>constructor\<close>, \<open>toString\<close> and so on; the set depends on the engine and can
  change at run time) are the parameter \<open>object_prototype\<close>. A read gives the string the
  entry holds, or the member of \<open>Object.prototype\<close> of that name, or \<open>undefined\<close>.
\<close>

datatype js_value = JUndefined | JString string | JInherited string

definition get_property :: "string list \<Rightarrow> js_object \<Rightarrow> string \<Rightarrow> js_value" where
  "get_property object_prototype obj name =
     (case map_of obj name of
        Some v \<Rightarrow> JString v
      | None \<Rightarrow> if name \<in> set object_prototype then JInherited name else JUndefined)"

text \<open>
  The loop of \<open>getActorId\<close> over the tab entries, first entry first. The fixed name
  \<open>actor\<close> is no member of \<open>Object.prototype\<close>, so \<open>tab.actor\<close> is the entry's
  own string or \<open>undefined\<close>.
\<close>

fun getActorId_loop ::
  "string list \<Rightarrow> js_object list \<Rightarrow> string option \<Rightarrow> string \<Rightarrow> js_value" where
  "getActorId_loop object_prototype [] currTabActorId actorName = JUndefined"
| "getActorId_loop object_prototype (tab # rest) currTabActorId actorName =
     (if map_of tab ''actor'' = currTabActorId then get_property object_prototype tab actorName
      else getActorId_loop object_prototype rest currTabActorId actorName)"

definition getActorId ::
  "string list \<Rightarrow> tab_context \<Rightarrow> string \<Rightarrow> js_error + js_value" where
  "getActorId object_prototype cx actorName =
     (case listTabsResponse cx of
        Obj resp \<Rightarrow>
          (case tabClient cx of
             Obj tc \<Rightarrow>
               Inr (getActorId_loop object_prototype (tabs resp) (tc_actor tc) actorName)
           | _ \<Rightarrow> Inl (TypeError ''context.tabClient is undefined''))
      | _ \<Rightarrow> Inr JUndefined)"

subsection \<open>Hooks\<close>

text \<open>\<open>Firebug.currentContext\<close> is a context or \<open>null\<close>.\<close>

definition onConnect ::
  "module_state \<Rightarrow> tab_context option \<Rightarrow> js_error option \<times> effect list" where
  "onConnect self currentContext =
     (let tr0 = dispatch ''onConnect'' [AClient (map_option cl_ref (client self))]
      in case currentContext of
           None \<Rightarrow> (Some (TypeError ''context is null''), tr0)
         | Some cx \<Rightarrow> (let (e, tr) = attachCurrentTab self cx in (e, tr0 @ tr)))"

definition onDisconnect :: "module_state \<Rightarrow> effect list" where
  "onDisconnect self = dispatch ''onDisconnect'' [AClient (map_option cl_ref (client self))]"

definition onTabNavigated :: "arg list \<Rightarrow> effect list" where
  "onTabNavigated arguments = dispatch ''onTabNavigated'' arguments"

definition onTabDetached :: "arg list \<Rightarrow> effect list" where
  "onTabDetached arguments =
     dispatch ''onThreadDetached'' arguments @ dispatch ''onTabDetached'' arguments"

section \<open>Runs of the module\<close>

text \<open>
  The entry points of the module and the callbacks it has handed out, as the operations
  that its callers, the debugger client and the transport apply, one at a time, to the
  module and one context. An exception ends the operation that raises it and no other.
\<close>

datatype operation =
    Connect environment
  | Disconnect
  | OnConnect
  | OnDisconnect
  | OnTabNavigated "arg list"
  | OnTabDetached "arg list"
  | InitContext "persisted_state option"
  | DestroyContext "persisted_state option"
  | AttachCurrentTab
  | AttachTab "string option"
  | AttachThread "string option"
  | GetActorId string
  | ListTabsReply list_tabs_response
  | AttachTabReply response "tab_client jsref"
  | AttachThreadReply response "thread_client jsref"
  | PacketIn js_object
  | PacketOut js_object
  | Closed string

fun step ::
  "module_state \<times> tab_context \<Rightarrow> operation \<Rightarrow> (module_state \<times> tab_context) \<times> effect list" where
  "step (self, cx) (Connect env) = (let (self1, tr) = connect env self in ((self1, cx), tr))"
| "step (self, cx) Disconnect = ((self, cx), snd (disconnect self))"
| "step (self, cx) OnConnect = ((self, cx), snd (onConnect self (Some cx)))"
| "step (self, cx) OnDisconnect = ((self, cx), onDisconnect self)"
| "step (self, cx) (OnTabNavigated args) = ((self, cx), onTabNavigated args)"
| "step (self, cx) (OnTabDetached args) = ((self, cx), onTabDetached args)"
| "step (self, cx) (InitContext ps) =
     (let (e, cx1, tr) = initContext self cx ps in ((self, cx1), tr))"
| "step (self, cx) (DestroyContext ps) = ((self, cx), [])"
| "step (self, cx) AttachCurrentTab = ((self, cx), snd (attachCurrentTab self cx))"
| "step (self, cx) (AttachTab a) = ((self, cx), snd (attachTab self cx a))"
| "step (self, cx) (AttachThread a) = ((self, cx), snd (attachThread self cx a))"
| "step (self, cx) (GetActorId n) = ((self, cx), [])"
| "step (self, cx) (ListTabsReply r) =
     (let (e, cx1, tr) = listTabs_callback self cx r in ((self, cx1), tr))"
| "step (self, cx) (AttachTabReply r tc) =
     (let (e, cx1, tr) = attachTab_callback self cx r tc in ((self, cx1), tr))"
| "step (self, cx) (AttachThreadReply r th) =
     (let (e, cx1, tr) = attachThread_callback self cx r th in ((self, cx1), tr))"
| "step (self, cx) (PacketIn p) = ((self, cx), snd (transport_onPacket self p))"
| "step (self, cx) (PacketOut p) = ((self, cx), transport_send self p)"
| "step (self, cx) (Closed s) = ((self, cx), snd (transport_onClosed self s))"

fun run ::
  "module_state \<times> tab_context \<Rightarrow> operation list \<Rightarrow> (module_state \<times> tab_context) \<times> effect list" where
  "run st [] = (st, [])"
| "run st (op # ops) =
     (let (st1, tr1) = step st op; (st2, tr2) = run st1 ops in (st2, tr1 @ tr2))"

text \<open>
  A connection from its start: \<open>connect\<close>, the client's call of \<open>onConnect\<close> with
  \<open>Firebug.currentContext\<close>, then any operations on that context.
\<close>

definition connect_session ::
  "environment \<Rightarrow> module_state \<Rightarrow> tab_context option \<Rightarrow> operation list \<Rightarrow> effect list" where
  "connect_session env self0 currentContext ops =
     (let (self1, tr0) = connect env self0;
          (e, tr1) = onConnect self1 currentContext
      in tr0 @ tr1 @
         (case currentContext of None \<Rightarrow> [] | Some cx \<Rightarrow> snd (run (self1, cx) ops)))"

subsection \<open>Observations on traces\<close>

fun is_dispatch_of :: "string \<Rightarrow> effect \<Rightarrow> bool" where
  "is_dispatch_of n (ModuleDispatch e args) = (e = n)"
| "is_dispatch_of n _ = False"

fun is_dispatch :: "effect \<Rightarrow> bool" where
  "is_dispatch (ModuleDispatch e args) = True"
| "is_dispatch _ = False"

fun is_attachTab_call :: "effect \<Rightarrow> bool" where
  "is_attachTab_call (ClientAttachTab u a) = True"
| "is_attachTab_call _ = False"

text \<open>The calls of the remote debugging protocol that list and attach.\<close>

fun is_attach_call :: "effect \<Rightarrow> bool" where
  "is_attach_call (ClientListTabs u) = True"
| "is_attach_call (ClientAttachTab u a) = True"
| "is_attach_call (ClientAttachThread u a) = True"
| "is_attach_call _ = False"

fun is_log :: "effect \<Rightarrow> bool" where
  "is_log (FBTraceSysout m args) = True"
| "is_log (TraceConnSysout m p) = True"
| "is_log (TraceErrorSysout m) = True"
| "is_log _ = False"

text \<open>Every call to the debugger client, the debugger server, the transport or a thread.\<close>

definition is_protocol_call :: "effect \<Rightarrow> bool" where
  "is_protocol_call x = (\<not> is_log x \<and> \<not> is_dispatch x)"

text \<open>
  The thread-attach step has completed in a run when the success branch of
  \<open>attachThread\<close>'s callback has run, or when \<open>initContext\<close> has restored a thread
  client that a persisted state carried.
\<close>

fun completes :: "operation \<Rightarrow> bool" where
  "completes (AttachThreadReply r th) = truthy th"
| "completes (InitContext (Some ps)) = truthy (p_activeThread ps)"
| "completes _ = False"

definition thread_attach_completed :: "operation list \<Rightarrow> bool" where
  "thread_attach_completed ops = list_ex completes ops"

text \<open>
  An operation keeps the active thread of a context unless it is \<open>initContext\<close> with a
  persisted-state object that carries no thread client, applied to a context whose
  \<open>activeThread\<close> is set.
\<close>

fun keeps_activeThread :: "tab_context \<Rightarrow> operation \<Rightarrow> bool" where
  "keeps_activeThread cx (InitContext (Some ps)) =
     (truthy (p_activeThread ps) \<or> \<not> truthy (activeThread cx))"
| "keeps_activeThread cx _ = True"

text \<open>Every operation of a run keeps the active thread of the context it meets.\<close>

fun run_keeps_activeThread :: "module_state \<times> tab_context \<Rightarrow> operation list \<Rightarrow> bool" where
  "run_keeps_activeThread st [] = True"
| "run_keeps_activeThread st (op # ops) =
     (keeps_activeThread (snd st) op \<and> run_keeps_activeThread (fst (step st op)) ops)"

subsection \<open>Concrete states and runs\<close>

text \<open>The module as its object literal declares it, before \<open>connect\<close>.\<close>

definition initial_module :: module_state where
  "initial_module = \<lparr>client = None, isRemoteDebugger = False, transport = None\<rparr>"

definition tracing_env :: environment where
  "tracing_env =
     \<lparr>DBG_CONNECTION = True, remoteHost = ''localhost'', remotePort = ''6000'',
      new_transport_ref = 1, new_client_ref = 2\<rparr>"

text \<open>The module after \<open>connect\<close> under tracing, once its client is connected.\<close>

definition connected_module :: module_state where
  "connected_module =
     \<lparr>client = Some \<lparr>cl_ref = 2, connected = True\<rparr>, isRemoteDebugger = False,
      transport = Some \<lparr>tr_ref = 1, hooks_traced = True, send_traced = True\<rparr>\<rparr>"

definition fresh_context :: tab_context where
  "fresh_context =
     \<lparr>uid = 8, tabClient = Undefined, activeThread = Undefined, listTabsResponse = Undefined\<rparr>"

text \<open>A context attached to the second of two listed tabs.\<close>

definition attached_context :: tab_context where
  "attached_context =
     \<lparr>uid = 7, tabClient = Obj \<lparr>tc_ref = 3, tc_actor = Some ''tab2''\<rparr>,
      activeThread = Obj \<lparr>th_ref = 4\<rparr>,
      listTabsResponse =
        Obj \<lparr>tabs = [[(''actor'', ''tab1''), (''consoleActor'', ''console1'')],
                     [(''actor'', ''tab2''), (''consoleActor'', ''console2'')]],
             selected = 1\<rparr>\<rparr>"

text \<open>The members of \<open>Object.prototype\<close> that ECMAScript 5 defines.\<close>

definition es5_object_prototype :: "string list" where
  "es5_object_prototype =
     [''constructor'', ''toString'', ''toLocaleString'', ''valueOf'', ''hasOwnProperty'',
      ''isPrototypeOf'', ''propertyIsEnumerable'']"

definition empty_persisted_state :: persisted_state where
  "empty_persisted_state = \<lparr>p_tabClient = Undefined, p_activeThread = Undefined\<rparr>"

text \<open>The replies of the debugger client in a full attachment to the tab \<open>tab1\<close>.\<close>

definition attach_replies :: "operation list" where
  "attach_replies =
     [ListTabsReply \<lparr>tabs = [[(''actor'', ''tab1'')]], selected = 0\<rparr>,
      AttachTabReply \<lparr>threadActor = Some ''thread1'', error = None\<rparr>
        (Obj \<lparr>tc_ref = 3, tc_actor = Some ''tab1''\<rparr>),
      AttachThreadReply \<lparr>threadActor = None, error = None\<rparr> (Obj \<lparr>th_ref = 4\<rparr>)]"

section \<open>Packet tracing\<close>

lemma connect_installs_hooks:
  assumes "DBG_CONNECTION env"
  shows "transport (fst (connect env self)) =
           Some \<lparr>tr_ref = new_transport_ref env, hooks_traced = True, send_traced = True\<rparr>
       \<and> client (fst (connect env self)) = Some \<lparr>cl_ref = new_client_ref env, connected = False\<rparr>"
  using assms by (simp add: connect_def hookPacketTransport_def Let_def)

text \<open>
  C1, as the code has it. While the tracing hooks are installed, an inbound packet whose
  \<open>type\<close> is \<open>newGlobal\<close> is dropped by the hook: it is neither logged nor handed to
  the client's packet handler, and the hook returns normally. Every other packet,
  a packet without a \<open>type\<close> included, is logged and then handed to the client's
  packet handler, in that order.
\<close>

theorem onPacket_traced:
  assumes "transport self = Some t" and "hooks_traced t" and "client self = Some c"
  shows "transport_onPacket self packet =
     (if map_of packet ''type'' = Some ''newGlobal'' then (None, [])
      else (None, [TraceConnSysout ''PACKET RECEIVED; '' packet, ClientOnPacket packet]))"
  using assms by (simp add: transport_onPacket_def onPacket_def)

theorem onPacket_traced_witness:
  "transport (fst (connect tracing_env initial_module)) =
     Some \<lparr>tr_ref = 1, hooks_traced = True, send_traced = True\<rparr>
   \<and> client (fst (connect tracing_env initial_module)) = Some \<lparr>cl_ref = 2, connected = False\<rparr>
   \<and> transport_onPacket (fst (connect tracing_env initial_module))
        [(''from'', ''root''), (''type'', ''newGlobal'')] = (None, [])
   \<and> transport_onPacket (fst (connect tracing_env initial_module))
        [(''from'', ''tab1''), (''type'', ''tabNavigated'')] =
       (None, [TraceConnSysout ''PACKET RECEIVED; '' [(''from'', ''tab1''), (''type'', ''tabNavigated'')],
               ClientOnPacket [(''from'', ''tab1''), (''type'', ''tabNavigated'')]])"
proof -
  have t: "transport (fst (connect tracing_env initial_module)) =
     Some \<lparr>tr_ref = 1, hooks_traced = True, send_traced = True\<rparr>"
    and c: "client (fst (connect tracing_env initial_module)) = Some \<lparr>cl_ref = 2, connected = False\<rparr>"
    by (simp_all add: connect_def hookPacketTransport_def Let_def tracing_env_def initial_module_def)
  have h: "hooks_traced \<lparr>tr_ref = 1, hooks_traced = True, send_traced = True\<rparr>" by simp
  show ?thesis
    using t c
      onPacket_traced [OF t h c, of "[(''from'', ''root''), (''type'', ''newGlobal'')]"]
      onPacket_traced [OF t h c, of "[(''from'', ''tab1''), (''type'', ''tabNavigated'')]"]
    by simp
qed

text \<open>
  C1 as stated fails: under tracing, a \<open>newGlobal\<close> packet does not reach the client's
  packet handler.
\<close>

theorem newGlobal_forwarded_counterexample:
  "ClientOnPacket [(''from'', ''root''), (''type'', ''newGlobal'')]
     \<notin> set (snd (transport_onPacket (fst (connect tracing_env initial_module))
                     [(''from'', ''root''), (''type'', ''newGlobal'')]))"
  by (simp add: transport_onPacket_def onPacket_def connect_def hookPacketTransport_def Let_def
      tracing_env_def initial_module_def)

text \<open>
  C10. While the tracing hooks are installed on the transport of a module that has its
  client, every close notification of the transport ends in the reference error for
  \<open>packet\<close>, for every status, and no call of the client's \<open>onClosed\<close> is made.
\<close>

theorem onClosed_traced_faults:
  assumes "transport self = Some t" and "hooks_traced t" and "client self = Some c"
  shows "fst (transport_onClosed self status) = Some (ReferenceError ''packet is not defined'')
       \<and> snd (transport_onClosed self status) = []
       \<and> ClientOnClosed status \<notin> set (snd (transport_onClosed self status))"
  using assms by (simp add: transport_onClosed_def onClosed_def)

theorem onClosed_traced_faults_witness:
  "transport connected_module = Some \<lparr>tr_ref = 1, hooks_traced = True, send_traced = True\<rparr>
   \<and> hooks_traced \<lparr>tr_ref = 1, hooks_traced = True, send_traced = True\<rparr>
   \<and> client connected_module = Some \<lparr>cl_ref = 2, connected = True\<rparr>
   \<and> transport_onClosed connected_module ''closed'' =
       (Some (ReferenceError ''packet is not defined''), [])"
proof -
  have t: "transport connected_module =
      Some \<lparr>tr_ref = 1, hooks_traced = True, send_traced = True\<rparr>"
    and c: "client connected_module = Some \<lparr>cl_ref = 2, connected = True\<rparr>"
    by (simp_all add: connected_module_def)
  have h: "hooks_traced \<lparr>tr_ref = 1, hooks_traced = True, send_traced = True\<rparr>" by simp
  show ?thesis
    using t h c onClosed_traced_faults [OF t h c, of "''closed''"]
    by (simp add: prod_eq_iff)
qed

section \<open>Attachment\<close>

text \<open>
  C2. The code at a context that has a tab client: \<open>attachTab\<close> issues no call of the
  client and ends in the reference error for \<open>response\<close> before \<open>attachThread\<close> is
  called, so no thread-actor id is passed on.
\<close>

theorem attachTab_tabClient_set_raises:
  "attachTab self (cx\<lparr>tabClient := Obj tc\<rparr>) tabActor =
     (Some (ReferenceError ''response is not defined''), [])
   \<and> attachTab connected_module attached_context (Some ''tab2'') =
     (Some (ReferenceError ''response is not defined''), [])"
  by (simp add: attachTab_def attached_context_def)

text \<open>
  C3. For a context whose \<open>tabClient\<close> and \<open>activeThread\<close> are both set,
  \<open>attachCurrentTab\<close> returns normally, issues no \<open>listTabs\<close>, \<open>attachTab\<close> or
  \<open>attachThread\<close> call, and dispatches exactly four events, each with the context and
  \<open>true\<close>: \<open>onThreadDetached\<close>, \<open>onTabDetached\<close>, \<open>onTabAttached\<close>,
  \<open>onThreadAttached\<close>, in this order.
\<close>

theorem attachCurrentTab_refresh:
  assumes "truthy (tabClient cx)" and "truthy (activeThread cx)"
  shows "fst (attachCurrentTab self cx) = None
       \<and> filter is_attach_call (snd (attachCurrentTab self cx)) = []
       \<and> filter is_dispatch (snd (attachCurrentTab self cx)) =
           [ModuleDispatch ''onThreadDetached'' [AContext (uid cx), ABool True],
            ModuleDispatch ''onTabDetached'' [AContext (uid cx), ABool True],
            ModuleDispatch ''onTabAttached'' [AContext (uid cx), ABool True],
            ModuleDispatch ''onThreadAttached'' [AContext (uid cx), ABool True]]"
  using assms by (simp add: attachCurrentTab_def dispatch_def)

theorem attachCurrentTab_refresh_witness:
  "truthy (tabClient attached_context) \<and> truthy (activeThread attached_context)
   \<and> fst (attachCurrentTab connected_module attached_context) = None
   \<and> filter is_attach_call (snd (attachCurrentTab connected_module attached_context)) = []
   \<and> filter is_dispatch (snd (attachCurrentTab connected_module attached_context)) =
           [ModuleDispatch ''onThreadDetached'' [AContext 7, ABool True],
            ModuleDispatch ''onTabDetached'' [AContext 7, ABool True],
            ModuleDispatch ''onTabAttached'' [AContext 7, ABool True],
            ModuleDispatch ''onThreadAttached'' [AContext 7, ABool True]]"
proof -
  have h1: "truthy (tabClient attached_context)" by (simp add: attached_context_def)
  have h2: "truthy (activeThread attached_context)" by (simp add: attached_context_def)
  have u: "uid attached_context = 7" by (simp add: attached_context_def)
  show ?thesis
    using h1 h2 attachCurrentTab_refresh [OF h1 h2, of connected_module] by (simp add: u)
qed

text \<open>
  C5. When the callback of \<open>attachTab\<close> (of \<open>attachThread\<close>) receives no client
  handle, it logs one error and returns normally: the context is left as it was, no event
  is dispatched and no call of the client, the server, the transport or a thread is made.
\<close>

theorem attach_failure_aborts:
  assumes "\<not> truthy tc" and "\<not> truthy th"
  shows "attachTab_callback self cx resp tc =
           (None, cx, [TraceErrorSysout ''ERROR: No tab client found!''])
       \<and> attachThread_callback self cx resp th =
           (None, cx, [TraceErrorSysout (''Couldn't attach to thread: '' @
                         (case error resp of None \<Rightarrow> ''undefined'' | Some msg \<Rightarrow> msg))])
       \<and> filter is_dispatch (snd (snd (attachTab_callback self cx resp tc))) = []
       \<and> filter is_protocol_call (snd (snd (attachTab_callback self cx resp tc))) = []
       \<and> filter is_dispatch (snd (snd (attachThread_callback self cx resp th))) = []
       \<and> filter is_protocol_call (snd (snd (attachThread_callback self cx resp th))) = []"
  using assms
  by (cases th) (simp_all add: attachTab_callback_def attachThread_callback_def is_protocol_call_def)

theorem attach_failure_aborts_witness:
  "\<not> truthy (Undefined :: tab_client jsref) \<and> \<not> truthy (Undefined :: thread_client jsref)
   \<and> attachTab_callback connected_module fresh_context
        \<lparr>threadActor = None, error = Some ''noSuchActor''\<rparr> Undefined =
       (None, fresh_context, [TraceErrorSysout ''ERROR: No tab client found!''])
   \<and> attachThread_callback connected_module fresh_context
        \<lparr>threadActor = None, error = Some ''wrongState''\<rparr> Undefined =
       (None, fresh_context, [TraceErrorSysout ''Couldn't attach to thread: wrongState''])"
  using attach_failure_aborts [of Undefined Undefined connected_module fresh_context
      "\<lparr>threadActor = None, error = Some ''noSuchActor''\<rparr>"]
    attach_failure_aborts [of Undefined Undefined connected_module fresh_context
      "\<lparr>threadActor = None, error = Some ''wrongState''\<rparr>"]
  by simp

section \<open>Context persistence\<close>

text \<open>
  C4. For a context that holds a tab client and a thread client and every persisted-state
  object, \<open>destroyContext\<close> followed by \<open>initContext\<close> on another context with the
  persisted state that \<open>destroyContext\<close> has written returns normally, leaves the very
  handles of the first context in \<open>tabClient\<close> and \<open>activeThread\<close> of the second,
  and issues no \<open>listTabs\<close>, \<open>attachTab\<close> or \<open>attachThread\<close> call, whatever the
  state of the module.
\<close>

theorem destroy_then_init_restores:
  assumes "truthy (tabClient cx)" and "truthy (activeThread cx)"
  shows "case destroyContext cx (Some ps) of
           Inl err \<Rightarrow> False
         | Inr ps1 \<Rightarrow>
             (case initContext self fresh (Some ps1) of
                (e, cx1, tr) \<Rightarrow>
                  e = None \<and> tabClient cx1 = tabClient cx \<and> activeThread cx1 = activeThread cx
                  \<and> filter is_attach_call tr = [])"
  using assms
  by (simp add: destroyContext_def initContext_def attachCurrentTab_def dispatch_def Let_def
      split: option.splits)

theorem destroy_then_init_restores_witness:
  "truthy (tabClient attached_context) \<and> truthy (activeThread attached_context)
   \<and> (case destroyContext attached_context (Some empty_persisted_state) of
           Inl err \<Rightarrow> False
         | Inr ps1 \<Rightarrow>
             (case initContext connected_module fresh_context (Some ps1) of
                (e, cx1, tr) \<Rightarrow>
                  e = None \<and> tabClient cx1 = tabClient attached_context
                  \<and> activeThread cx1 = activeThread attached_context
                  \<and> filter is_attach_call tr = []))"
proof -
  have h1: "truthy (tabClient attached_context)" by (simp add: attached_context_def)
  have h2: "truthy (activeThread attached_context)" by (simp add: attached_context_def)
  show ?thesis
    using h1 h2 destroy_then_init_restores [OF h1 h2, where self = connected_module
        and fresh = fresh_context and ps = empty_persisted_state]
    by simp
qed

text \<open>
  C9. For every context and every persisted-state object, \<open>initContext\<close> leaves the
  fields of the persisted state in \<open>tabClient\<close> and \<open>activeThread\<close> of the context,
  whatever they held before and whatever the state of the module: with a persisted state
  that carries no handles both become \<open>undefined\<close>. Without a persisted-state object the
  two fields keep their values.
\<close>

theorem initContext_overwrites:
  "tabClient (fst (snd (initContext self cx (Some ps)))) = p_tabClient ps
   \<and> activeThread (fst (snd (initContext self cx (Some ps)))) = p_activeThread ps
   \<and> tabClient (fst (snd (initContext self cx (Some empty_persisted_state)))) = Undefined
   \<and> activeThread (fst (snd (initContext self cx (Some empty_persisted_state)))) = Undefined
   \<and> tabClient (fst (snd (initContext self cx None))) = tabClient cx
   \<and> activeThread (fst (snd (initContext self cx None))) = activeThread cx"
  by (simp add: initContext_def empty_persisted_state_def Let_def
      split: option.splits prod.splits)

section \<open>Actors\<close>

lemma getActorId_loop_find:
  "getActorId_loop object_prototype ts cur n =
     (case find (\<lambda>tab. map_of tab ''actor'' = cur) ts of
        None \<Rightarrow> JUndefined
      | Some tab \<Rightarrow> get_property object_prototype tab n)"
  by (induction ts) simp_all

text \<open>
  Where \<open>getActorId\<close> returns. Without a cached listing it returns \<open>undefined\<close>.
  With a cached listing and a tab client on the context it returns what the read of the
  given name gives on the first tab entry whose \<open>actor\<close> equals the actor id of the
  tab client, and \<open>undefined\<close> when no entry has that actor id.
\<close>

lemma getActorId_with_tabClient:
  "(\<not> truthy (listTabsResponse cx) \<longrightarrow> getActorId object_prototype cx actorName = Inr JUndefined)
   \<and> (\<forall>resp tc. listTabsResponse cx = Obj resp \<and> tabClient cx = Obj tc \<longrightarrow>
        getActorId object_prototype cx actorName =
          Inr (case find (\<lambda>tab. map_of tab ''actor'' = tc_actor tc) (tabs resp) of
                 None \<Rightarrow> JUndefined
               | Some tab \<Rightarrow> get_property object_prototype tab actorName))"
  by (cases "listTabsResponse cx") (simp_all add: getActorId_def getActorId_loop_find)

lemma getActorId_attached_context:
  "getActorId es5_object_prototype attached_context ''consoleActor'' = Inr (JString ''console2'')
   \<and> getActorId es5_object_prototype attached_context ''traceActor'' = Inr JUndefined
   \<and> getActorId es5_object_prototype attached_context ''constructor'' =
       Inr (JInherited ''constructor'')
   \<and> getActorId es5_object_prototype fresh_context ''consoleActor'' = Inr JUndefined"
  by (simp add: getActorId_def get_property_def attached_context_def fresh_context_def
      es5_object_prototype_def)

text \<open>
  C6. The code at a context that has a cached listing and no tab client: for every
  listing, every actor name and whatever \<open>Object.prototype\<close> holds, \<open>getActorId\<close>
  ends in a type error at \<open>context.tabClient._actor\<close>, where no tab entry matches and
  the claim has \<open>undefined\<close> returned. The module produces this state itself: the
  callback of \<open>listTabs\<close> caches the listing before any tab client is set, and a
  failed \<open>attachTab\<close> leaves the context so.
\<close>

theorem getActorId_without_tabClient_raises:
  "getActorId object_prototype (cx\<lparr>listTabsResponse := Obj resp, tabClient := Undefined\<rparr>)
     actorName = Inl (TypeError ''context.tabClient is undefined'')
   \<and> getActorId object_prototype (cx\<lparr>listTabsResponse := Obj resp, tabClient := Null\<rparr>)
       actorName = Inl (TypeError ''context.tabClient is undefined'')
   \<and> snd (fst (run (connected_module, fresh_context)
         [AttachCurrentTab,
          ListTabsReply \<lparr>tabs = [[(''actor'', ''tab1'')]], selected = 0\<rparr>,
          AttachTabReply \<lparr>threadActor = None, error = Some ''noSuchActor''\<rparr> Undefined])) =
       fresh_context\<lparr>listTabsResponse := Obj \<lparr>tabs = [[(''actor'', ''tab1'')]], selected = 0\<rparr>\<rparr>
   \<and> getActorId es5_object_prototype
         (fresh_context\<lparr>listTabsResponse := Obj \<lparr>tabs = [[(''actor'', ''tab1'')]], selected = 0\<rparr>\<rparr>)
         ''consoleActor'' = Inl (TypeError ''context.tabClient is undefined'')"
  by (simp add: getActorId_def fresh_context_def connected_module_def attachCurrentTab_def
      listTabs_callback_def attachTab_def attachTab_callback_def Let_def)

section \<open>Connection and attachment order\<close>

lemma attachThread_no_onConnect:
  "filter (is_dispatch_of ''onConnect'') (snd (attachThread self cx a)) = []"
  by (simp add: attachThread_def split: option.splits)

lemma attachTab_no_onConnect:
  "filter (is_dispatch_of ''onConnect'') (snd (attachTab self cx a)) = []"
  by (simp add: attachTab_def split: option.splits)

lemma attachCurrentTab_no_onConnect:
  "filter (is_dispatch_of ''onConnect'') (snd (attachCurrentTab self cx)) = []"
  by (simp add: attachCurrentTab_def dispatch_def split: option.splits)

lemma connect_no_onConnect:
  "filter (is_dispatch_of ''onConnect'') (snd (connect env self)) = []"
  by (simp add: connect_def Let_def)

text \<open>No operation but \<open>onConnect\<close> dispatches the event \<open>onConnect\<close>.\<close>

lemma step_no_onConnect:
  assumes "op \<noteq> OnConnect"
  shows "filter (is_dispatch_of ''onConnect'') (snd (step (self, cx) op)) = []"
proof (cases op)
  case (Connect env)
  then show ?thesis
    using connect_no_onConnect [of env self] by (auto split: prod.splits)
next
  case Disconnect
  then show ?thesis by (simp add: disconnect_def split: option.splits)
next
  case OnConnect
  with assms show ?thesis by simp
next
  case OnDisconnect
  then show ?thesis by (simp add: onDisconnect_def dispatch_def)
next
  case (OnTabNavigated args)
  then show ?thesis by (simp add: onTabNavigated_def dispatch_def)
next
  case (OnTabDetached args)
  then show ?thesis by (simp add: onTabDetached_def dispatch_def)
next
  case (InitContext ps)
  then show ?thesis
    using attachCurrentTab_no_onConnect
    by (simp add: initContext_def Let_def split: option.splits prod.splits) (metis snd_conv)
next
  case (DestroyContext ps)
  then show ?thesis by simp
next
  case AttachCurrentTab
  then show ?thesis by (simp add: attachCurrentTab_no_onConnect)
next
  case (AttachTab a)
  then show ?thesis by (simp add: attachTab_no_onConnect)
next
  case (AttachThread a)
  then show ?thesis by (simp add: attachThread_no_onConnect)
next
  case (GetActorId n)
  then show ?thesis by simp
next
  case (ListTabsReply r)
  then show ?thesis
    using attachTab_no_onConnect
    by (simp add: listTabs_callback_def Let_def split: prod.splits if_splits) (metis snd_conv)
next
  case (AttachTabReply r tc)
  then show ?thesis
    using attachThread_no_onConnect
    by (simp add: attachTab_callback_def Let_def dispatch_def split: prod.splits if_splits)
       (metis snd_conv)
next
  case (AttachThreadReply r th)
  then show ?thesis
    by (cases th) (simp_all add: attachThread_callback_def dispatch_def)
next
  case (PacketIn p)
  then show ?thesis
    by (simp add: transport_onPacket_def onPacket_def split: option.splits)
next
  case (PacketOut p)
  then show ?thesis by (simp add: transport_send_def send_def split: option.splits)
next
  case (Closed s)
  then show ?thesis by (simp add: transport_onClosed_def onClosed_def split: option.splits)
qed

lemma run_no_onConnect:
  "OnConnect \<notin> set ops \<Longrightarrow> filter (is_dispatch_of ''onConnect'') (snd (run st ops)) = []"
proof (induction ops arbitrary: st)
  case Nil
  then show ?case by simp
next
  case (Cons op ops)
  obtain self cx where st: "st = (self, cx)" by (cases st)
  have a: "filter (is_dispatch_of ''onConnect'') (snd (step (self, cx) op)) = []"
    using Cons.prems by (intro step_no_onConnect) auto
  have b: "filter (is_dispatch_of ''onConnect'') (snd (run (fst (step (self, cx) op)) ops)) = []"
    using Cons.prems by (intro Cons.IH) auto
  show ?case using a b by (auto simp: st split: prod.splits)
qed

text \<open>
  C7. In every run that starts with \<open>connect\<close> and the client's call of \<open>onConnect\<close>,
  and goes on with any operations on the current context in which the client does not call
  \<open>onConnect\<close> again, the event \<open>onConnect\<close> is dispatched exactly once, with the
  client that \<open>connect\<close> has made as its payload, and no \<open>attachTab\<close> call is issued
  before that dispatch.
\<close>

theorem onConnect_dispatched_once_before_attachTab:
  assumes "OnConnect \<notin> set ops"
  shows "filter (is_dispatch_of ''onConnect'') (connect_session env self0 currentContext ops) =
           [ModuleDispatch ''onConnect'' [AClient (Some (new_client_ref env))]]
       \<and> filter is_attachTab_call
           (takeWhile (\<lambda>x. \<not> is_dispatch_of ''onConnect'' x)
              (connect_session env self0 currentContext ops)) = []"
proof -
  obtain self1 tr0 where c: "connect env self0 = (self1, tr0)" by (cases "connect env self0")
  have cl: "map_option cl_ref (client self1) = Some (new_client_ref env)"
    using c by (auto simp: connect_def Let_def hookPacketTransport_def)
  have tr0a: "filter (is_dispatch_of ''onConnect'') tr0 = []"
    using connect_no_onConnect [of env self0] c by simp
  have tr0b: "\<forall>x\<in>set tr0. \<not> is_dispatch_of ''onConnect'' x"
    using tr0a by (simp add: filter_empty_conv)
  have tr0c: "filter is_attachTab_call tr0 = []"
    using c by (auto simp: connect_def Let_def)
  define rest where "rest = (case currentContext of None \<Rightarrow> []
      | Some cx \<Rightarrow> snd (attachCurrentTab self1 cx) @ snd (run (self1, cx) ops))"
  have s: "connect_session env self0 currentContext ops =
      tr0 @ FBTraceSysout ''debuggerClientModule.dispatch; onConnect''
              [AClient (Some (new_client_ref env))]
          # ModuleDispatch ''onConnect'' [AClient (Some (new_client_ref env))] # rest"
    by (simp add: connect_session_def c onConnect_def Let_def dispatch_def cl rest_def
        split: option.splits prod.splits)
  have r: "filter (is_dispatch_of ''onConnect'') rest = []"
    using assms by (simp add: rest_def attachCurrentTab_no_onConnect run_no_onConnect
        split: option.splits)
  show ?thesis
    using tr0a tr0b tr0c r by (simp add: s)
qed

lemma connect_session_attach_replies:
  "connect_session tracing_env initial_module (Some fresh_context) attach_replies =
     [ServerInit, ServerAddBrowserActors, ServerConnectPipe, NewDebuggerClient 2,
      ClientAddListener ''tabNavigated'', ClientAddListener ''tabDetached'', ClientConnect,
      FBTraceSysout ''debuggerClientModule.dispatch; onConnect'' [AClient (Some 2)],
      ModuleDispatch ''onConnect'' [AClient (Some 2)],
      ClientListTabs 8,
      ClientAttachTab 8 (Some ''tab1''),
      FBTraceSysout ''debuggerClientModule.dispatch; onTabAttached'' [AContext 8, ABool False],
      ModuleDispatch ''onTabAttached'' [AContext 8, ABool False],
      ClientAttachThread 8 (Some ''thread1''),
      FBTraceSysout ''debuggerClientModule.dispatch; onThreadAttached'' [AContext 8, ABool False],
      ModuleDispatch ''onThreadAttached'' [AContext 8, ABool False],
      ThreadResume 4]"
  by (simp add: connect_session_def connect_def hookPacketTransport_def onConnect_def
      tracing_env_def initial_module_def fresh_context_def attach_replies_def
      attachCurrentTab_def listTabs_callback_def attachTab_def attachTab_callback_def
      attachThread_def attachThread_callback_def Let_def dispatch_def)

theorem onConnect_dispatched_once_before_attachTab_witness:
  "OnConnect \<notin> set attach_replies
   \<and> filter (is_dispatch_of ''onConnect'')
        (connect_session tracing_env initial_module (Some fresh_context) attach_replies) =
       [ModuleDispatch ''onConnect'' [AClient (Some 2)]]
   \<and> filter is_attachTab_call
        (takeWhile (\<lambda>x. \<not> is_dispatch_of ''onConnect'' x)
           (connect_session tracing_env initial_module (Some fresh_context) attach_replies)) = []
   \<and> filter is_attachTab_call
        (connect_session tracing_env initial_module (Some fresh_context) attach_replies) =
       [ClientAttachTab 8 (Some ''tab1'')]"
proof -
  have h: "OnConnect \<notin> set attach_replies" by (simp add: attach_replies_def)
  have n: "new_client_ref tracing_env = 2" by (simp add: tracing_env_def)
  have a: "filter is_attachTab_call
        (connect_session tracing_env initial_module (Some fresh_context) attach_replies) =
       [ClientAttachTab 8 (Some ''tab1'')]"
    by (simp add: connect_session_attach_replies)
  show ?thesis
    using h a onConnect_dispatched_once_before_attachTab [OF h, of tracing_env initial_module
        "Some fresh_context"]
    by (simp add: n)
qed

section \<open>The active thread of a context\<close>

lemma step_activeThread:
  assumes "keeps_activeThread cx op"
  shows "truthy (activeThread (snd (fst (step (self, cx) op)))) =
           (truthy (activeThread cx) \<or> completes op)"
proof (cases op)
  case (Connect env)
  then show ?thesis by (simp split: prod.splits)
next
  case (InitContext ps)
  with assms show ?thesis
    by (cases ps) (auto simp: initContext_def Let_def split: option.splits prod.splits)
next
  case (ListTabsReply r)
  then show ?thesis
    by (simp add: listTabs_callback_def Let_def split: prod.splits if_splits)
next
  case (AttachTabReply r tc)
  then show ?thesis
    by (simp add: attachTab_callback_def Let_def split: prod.splits if_splits)
next
  case (AttachThreadReply r th)
  then show ?thesis
    by (cases th) (simp_all add: attachThread_callback_def)
qed simp_all

lemma run_activeThread:
  "run_keeps_activeThread (self, cx) ops \<Longrightarrow>
   truthy (activeThread (snd (fst (run (self, cx) ops)))) =
     (truthy (activeThread cx) \<or> list_ex completes ops)"
proof (induction ops arbitrary: self cx)
  case Nil
  then show ?case by simp
next
  case (Cons op ops)
  obtain self1 cx1 tr1 where s: "step (self, cx) op = ((self1, cx1), tr1)"
    by (metis surj_pair)
  have a: "truthy (activeThread cx1) = (truthy (activeThread cx) \<or> completes op)"
    using step_activeThread [of cx op self] Cons.prems s by simp
  have b: "truthy (activeThread (snd (fst (run (self1, cx1) ops)))) =
     (truthy (activeThread cx1) \<or> list_ex completes ops)"
    using Cons.prems s by (intro Cons.IH) simp
  show ?case using a b by (auto simp: s split: prod.splits)
qed

text \<open>
  The condition is needed: in a run in which some operation does not keep the active
  thread, the equivalence fails after one of its prefixes.
\<close>

lemma run_activeThread_fails:
  "\<not> run_keeps_activeThread (self, cx) ops \<Longrightarrow>
   \<exists>n\<le>length ops.
     truthy (activeThread (snd (fst (run (self, cx) (take n ops))))) \<noteq>
       (truthy (activeThread cx) \<or> list_ex completes (take n ops))"
proof (induction ops arbitrary: self cx)
  case Nil
  then show ?case by simp
next
  case (Cons op ops)
  obtain self1 cx1 tr1 where s: "step (self, cx) op = ((self1, cx1), tr1)"
    by (metis surj_pair)
  show ?case
  proof (cases "keeps_activeThread cx op")
    case False
    then obtain ps where op: "op = InitContext (Some ps)"
      and ps: "\<not> truthy (p_activeThread ps)" and cx: "truthy (activeThread cx)"
      by (cases "(cx, op)" rule: keeps_activeThread.cases) auto
    have "\<not> truthy (activeThread (snd (fst (run (self, cx) (take 1 (op # ops))))))"
      using ps by (simp add: op initContext_def Let_def split: option.splits prod.splits)
    then have "truthy (activeThread (snd (fst (run (self, cx) (take 1 (op # ops)))))) \<noteq>
       (truthy (activeThread cx) \<or> list_ex completes (take 1 (op # ops)))"
      using cx by simp
    then show ?thesis by (intro exI [of _ 1]) simp
  next
    case True
    have a: "truthy (activeThread cx1) = (truthy (activeThread cx) \<or> completes op)"
      using step_activeThread [OF True, of self] s by simp
    have "\<not> run_keeps_activeThread (self1, cx1) ops"
      using Cons.prems True s by simp
    then obtain n where n: "n \<le> length ops"
      and f: "truthy (activeThread (snd (fst (run (self1, cx1) (take n ops))))) \<noteq>
         (truthy (activeThread cx1) \<or> list_ex completes (take n ops))"
      using Cons.IH by blast
    have "truthy (activeThread (snd (fst (run (self, cx) (take (Suc n) (op # ops)))))) \<noteq>
       (truthy (activeThread cx) \<or> list_ex completes (take (Suc n) (op # ops)))"
      using f a by (auto simp: s split: prod.splits)
    then show ?thesis using n by (intro exI [of _ "Suc n"]) simp
  qed
qed

text \<open>
  C8, as the code has it. Take a context whose \<open>activeThread\<close> is not set and any run
  of operations of the module on it in which \<open>initContext\<close> is never given a
  persisted-state object without a thread client while \<open>activeThread\<close> is set. After
  the run \<open>activeThread\<close> is set if and only if the thread-attach step has completed in
  the run: the success branch of \<open>attachThread\<close>'s callback has run, or
  \<open>initContext\<close> has restored a thread client from the persisted state.
\<close>

theorem activeThread_iff_thread_attach_completed:
  assumes "\<not> truthy (activeThread cx)" and "run_keeps_activeThread (self, cx) ops"
  shows "truthy (activeThread (snd (fst (run (self, cx) ops)))) = thread_attach_completed ops"
  using assms run_activeThread [of self cx ops] by (simp add: thread_attach_completed_def)

lemma attach_replies_state:
  "fst (run (connected_module, fresh_context) (AttachCurrentTab # attach_replies)) =
     (connected_module,
      \<lparr>uid = 8, tabClient = Obj \<lparr>tc_ref = 3, tc_actor = Some ''tab1''\<rparr>,
       activeThread = Obj \<lparr>th_ref = 4\<rparr>,
       listTabsResponse = Obj \<lparr>tabs = [[(''actor'', ''tab1'')]], selected = 0\<rparr>\<rparr>)"
  by (simp add: attach_replies_def connected_module_def fresh_context_def
      attachCurrentTab_def listTabs_callback_def attachTab_def attachTab_callback_def
      attachThread_def attachThread_callback_def Let_def dispatch_def)

theorem activeThread_iff_thread_attach_completed_witness:
  "\<not> truthy (activeThread fresh_context)
   \<and> run_keeps_activeThread (connected_module, fresh_context)
        (AttachCurrentTab # attach_replies @
         [InitContext None,
          InitContext (Some \<lparr>p_tabClient = Undefined, p_activeThread = Obj \<lparr>th_ref = 5\<rparr>\<rparr>)])
   \<and> thread_attach_completed
        (AttachCurrentTab # attach_replies @
         [InitContext None,
          InitContext (Some \<lparr>p_tabClient = Undefined, p_activeThread = Obj \<lparr>th_ref = 5\<rparr>\<rparr>)])
   \<and> truthy (activeThread (snd (fst (run (connected_module, fresh_context)
        (AttachCurrentTab # attach_replies @
         [InitContext None,
          InitContext (Some \<lparr>p_tabClient = Undefined, p_activeThread = Obj \<lparr>th_ref = 5\<rparr>\<rparr>)])))))
   \<and> run_keeps_activeThread (connected_module, fresh_context)
        [InitContext (Some empty_persisted_state), AttachCurrentTab]
   \<and> \<not> thread_attach_completed [InitContext (Some empty_persisted_state), AttachCurrentTab]
   \<and> \<not> truthy (activeThread (snd (fst (run (connected_module, fresh_context)
        [InitContext (Some empty_persisted_state), AttachCurrentTab]))))"
proof -
  have h1: "\<not> truthy (activeThread fresh_context)" by (simp add: fresh_context_def)
  have h2: "run_keeps_activeThread (connected_module, fresh_context)
        (AttachCurrentTab # attach_replies @
         [InitContext None,
          InitContext (Some \<lparr>p_tabClient = Undefined, p_activeThread = Obj \<lparr>th_ref = 5\<rparr>\<rparr>)])"
    by (simp add: attach_replies_def connected_module_def fresh_context_def
      attachCurrentTab_def listTabs_callback_def attachTab_def attachTab_callback_def
      attachThread_def attachThread_callback_def initContext_def Let_def dispatch_def)
  have h3: "run_keeps_activeThread (connected_module, fresh_context)
        [InitContext (Some empty_persisted_state), AttachCurrentTab]"
    by (simp add: fresh_context_def empty_persisted_state_def)
  have c1: "thread_attach_completed
        (AttachCurrentTab # attach_replies @
         [InitContext None,
          InitContext (Some \<lparr>p_tabClient = Undefined, p_activeThread = Obj \<lparr>th_ref = 5\<rparr>\<rparr>)])"
    by (simp add: thread_attach_completed_def attach_replies_def)
  have c2: "\<not> thread_attach_completed [InitContext (Some empty_persisted_state), AttachCurrentTab]"
    by (simp add: thread_attach_completed_def empty_persisted_state_def)
  show ?thesis
    using h1 h2 h3 c1 c2
      activeThread_iff_thread_attach_completed [OF h1 h2]
      activeThread_iff_thread_attach_completed [OF h1 h3]
    by simp
qed

text \<open>
  C8 as stated fails under \<open>initContext\<close>: on a context whose thread attachment has
  completed, \<open>initContext\<close> with a persisted state that carries no handles leaves
  \<open>activeThread\<close> \<open>undefined\<close>.
\<close>

theorem activeThread_cleared_counterexample:
  "thread_attach_completed
     (AttachCurrentTab # attach_replies @ [InitContext (Some empty_persisted_state)])
   \<and> truthy (activeThread (snd (fst (run (connected_module, fresh_context)
        (AttachCurrentTab # attach_replies)))))
   \<and> activeThread (snd (fst (run (connected_module, fresh_context)
        (AttachCurrentTab # attach_replies @ [InitContext (Some empty_persisted_state)]))))
     = Undefined"
  by (simp add: thread_attach_completed_def attach_replies_def connected_module_def
      fresh_context_def empty_persisted_state_def
      attachCurrentTab_def listTabs_callback_def attachTab_def attachTab_callback_def
      attachThread_def attachThread_callback_def initContext_def Let_def dispatch_def)

end
